theory Spec2Isabelle
  imports Complex_Main "HOL-Library.AList" "HOL-Library.Multiset"
begin

section \<open>Values of the embedding\<close>

text \<open>
  The backend is JavaScript on Express and Mongoose. Its values are embedded as follows.
  \<^item> A JavaScript Number that holds money or a percentage is a \<open>real\<close>: the arithmetic
    of the model is exact, the rounding of IEEE doubles is not represented. An amount in
    a request body is a JSON number.
  \<^item> A \<open>Date\<close> is its \<open>getTime()\<close> value, an \<open>int\<close> of milliseconds; \<open>new Date()\<close>
    is the parameter \<open>now\<close> of the request being served.
  \<^item> A string is a \<open>string\<close>; the enumerations of the schemas stay strings, as in the
    source, and are checked against the lists of the schema.
  \<^item> A response is \<open>error + 'a\<close>: \<open>Inl (Error code message)\<close> for
    \<open>res.status(code).json({ message })\<close>, \<open>Inr\<close> for the payload of a success.
  \<^item> A collection is an association list from \<open>_id\<close> to document.
\<close>

type_synonym time = int

datatype error = Error nat string

definition is_space :: "char \<Rightarrow> bool" where
  "is_space c = (c \<in> set [CHR 0x20, CHR 0x09, CHR 0x0A, CHR 0x0B, CHR 0x0C, CHR 0x0D])"

text \<open>\<open>String.prototype.trim\<close>, on the ASCII white space.\<close>

definition trim :: "string \<Rightarrow> string" where
  "trim s = rev (dropWhile is_space (rev (dropWhile is_space s)))"

section \<open>The Goal model (the \<open>goalSchema\<close> part of backend/models/Expense.js)\<close>

text \<open>
  One element of \<open>contributions\<close>. The field \<open>note\<close> is written \<open>note'\<close>, the plain
  name being a keyword of Isar.
\<close>

record contribution =
  amount :: real
  date :: time
  note' :: string

record goal =
  user :: nat
  title :: string
  description :: "string option"
  targetAmount :: real
  currentAmount :: real
  targetDate :: time
  category :: string
  priority :: string
  status :: string
  contributions :: "contribution list"
  createdAt :: time

text \<open>
  The \<open>autoContribute\<close> descriptor and \<open>updatedAt\<close> take no part in any operation
  below and are left out of the record.
\<close>

definition goal_categories :: "string list" where
  "goal_categories = [''Emergency Fund'', ''Vacation'', ''Car'', ''House'', ''Education'',
     ''Retirement'', ''Wedding'', ''Medical'', ''Business'', ''Electronics'', ''Other'']"

definition goal_priorities :: "string list" where
  "goal_priorities = [''Low'', ''Medium'', ''High'']"

definition goal_statuses :: "string list" where
  "goal_statuses = [''Active'', ''Completed'', ''Paused'', ''Cancelled'']"

text \<open>The validators of the sub-schema of one contribution.\<close>

definition contribution_valid :: "contribution \<Rightarrow> bool" where
  "contribution_valid c \<longleftrightarrow> 1 / 100 \<le> amount c \<and> length (note' c) \<le> 200"

text \<open>
  The validators of \<open>goalSchema\<close>, as \<open>Document.save()\<close> runs them before it writes:
  Mongoose validates the paths of the whole document, the ones loaded from the database
  included, unless \<open>validateModifiedOnly\<close> is set, and neither the schema options
  (\<open>{ timestamps: true }\<close>) nor any call of \<open>save()\<close> in the routes sets it. The validator
  of \<open>targetDate\<close> is \<open>value > new Date()\<close>, read at the moment of the save.
\<close>

definition goal_valid :: "time \<Rightarrow> goal \<Rightarrow> bool" where
  "goal_valid now g \<longleftrightarrow>
     title g \<noteq> [] \<and> length (title g) \<le> 100 \<and>
     (case description g of None \<Rightarrow> True | Some d \<Rightarrow> length d \<le> 500) \<and>
     1 / 100 \<le> targetAmount g \<and>
     0 \<le> currentAmount g \<and>
     now < targetDate g \<and>
     category g \<in> set goal_categories \<and>
     priority g \<in> set goal_priorities \<and>
     status g \<in> set goal_statuses \<and>
     list_all contribution_valid (contributions g)"

subsection \<open>Virtuals\<close>

definition progressPercentage :: "goal \<Rightarrow> real" where
  "progressPercentage g =
     (if targetAmount g = 0 then 0 else min (currentAmount g / targetAmount g * 100) 100)"

definition remainingAmount :: "goal \<Rightarrow> real" where
  "remainingAmount g = max (targetAmount g - currentAmount g) 0"

definition daysRemaining :: "time \<Rightarrow> goal \<Rightarrow> int" where
  "daysRemaining now g = \<lceil>real_of_int (targetDate g - now) / (1000 * 3600 * 24)\<rceil>"

subsection \<open>The collection\<close>

type_synonym goals = "(nat \<times> goal) list"

text \<open>\<open>Goal.findOne({ _id: id, user: userId })\<close>\<close>

definition findOne :: "nat \<Rightarrow> nat \<Rightarrow> goals \<Rightarrow> goal option" where
  "findOne gid uid coll =
     (case map_of coll gid of
        None \<Rightarrow> None
      | Some g \<Rightarrow> if user g = uid then Some g else None)"

text \<open>
  \<open>save()\<close> of a document that was loaded from the collection: \<open>None\<close> is the
  \<open>ValidationError\<close> it rejects with, and nothing is written then.
\<close>

definition save :: "time \<Rightarrow> nat \<Rightarrow> goal \<Rightarrow> goals \<Rightarrow> goals option" where
  "save now gid g coll = (if goal_valid now g then Some (AList.update gid g coll) else None)"

subsection \<open>\<open>goalSchema.methods.addContribution\<close>\<close>

text \<open>
  An object that enters the \<open>contributions\<close> array is cast by the sub-schema: an
  absent \<open>date\<close> takes its default \<open>Date.now\<close> and \<open>note\<close> goes through the
  \<open>trim\<close> setter (an absent note is the empty string of the model). The method pushes
  \<open>{ amount, note }\<close> and returns the mutated document together with the outcome of
  \<open>save()\<close>.
\<close>

record contribution_in =
  ci_amount :: real
  ci_date :: "time option"
  ci_note :: "string option"

definition cast_contribution :: "time \<Rightarrow> contribution_in \<Rightarrow> contribution" where
  "cast_contribution now ci =
     \<lparr>amount = ci_amount ci,
      date = (case ci_date ci of None \<Rightarrow> now | Some d \<Rightarrow> d),
      note' = (case ci_note ci of None \<Rightarrow> [] | Some n \<Rightarrow> trim n)\<rparr>"

definition push_contribution :: "time \<Rightarrow> real \<Rightarrow> string \<Rightarrow> goal \<Rightarrow> goal" where
  "push_contribution now a n g =
     g\<lparr>contributions := contributions g @
        [cast_contribution now \<lparr>ci_amount = a, ci_date = None, ci_note = Some n\<rparr>]\<rparr>"

definition addContribution_doc :: "time \<Rightarrow> real \<Rightarrow> string \<Rightarrow> goal \<Rightarrow> goal" where
  "addContribution_doc now a n g =
     (let g1 = push_contribution now a n g;
          g2 = g1\<lparr>currentAmount := currentAmount g1 + a\<rparr>
      in if targetAmount g2 \<le> currentAmount g2 then g2\<lparr>status := ''Completed''\<rparr> else g2)"

definition addContribution ::
  "time \<Rightarrow> real \<Rightarrow> string \<Rightarrow> nat \<Rightarrow> goal \<Rightarrow> goals \<Rightarrow> (goal \<times> goals) option" where
  "addContribution now a n gid g coll =
     (let g' = addContribution_doc now a n g
      in case save now gid g' coll of None \<Rightarrow> None | Some coll' \<Rightarrow> Some (g', coll'))"

section \<open>The goal routes (the goals router in backend/middleware/auth.js)\<close>

record contribute_body =
  cb_amount :: "real option"
  cb_note :: "string option"

text \<open>
  The express-validator chain of \<open>POST /:id/contribute\<close>:
  \<open>body('amount').isFloat({ min: 0.01 })\<close> and
  \<open>body('note').optional().isLength({ max: 200 })\<close>.
\<close>

definition contribute_validation :: "contribute_body \<Rightarrow> bool" where
  "contribute_validation b \<longleftrightarrow>
     (case cb_amount b of None \<Rightarrow> False | Some a \<Rightarrow> 1 / 100 \<le> a) \<and>
     (case cb_note b of None \<Rightarrow> True | Some n \<Rightarrow> length n \<le> 200)"

text \<open>\<open>note || ''\<close>\<close>

definition note_or_empty :: "string option \<Rightarrow> string" where
  "note_or_empty n = (case n of None \<Rightarrow> [] | Some s \<Rightarrow> s)"

text \<open>
  \<open>POST /api/goals/:id/contribute\<close>. A rejected \<open>save()\<close> is not a \<open>CastError\<close>, so the
  \<open>catch\<close> block answers 500.
\<close>

definition contribute ::
  "time \<Rightarrow> nat \<Rightarrow> nat \<Rightarrow> contribute_body \<Rightarrow> goals \<Rightarrow> (error + goal) \<times> goals" where
  "contribute now uid gid b coll =
     (if \<not> contribute_validation b then (Inl (Error 400 ''Validation failed''), coll)
      else case findOne gid uid coll of
        None \<Rightarrow> (Inl (Error 404 ''Goal not found''), coll)
      | Some g \<Rightarrow>
          if status g \<noteq> ''Active''
          then (Inl (Error 400 ''Cannot contribute to inactive goal''), coll)
          else (case cb_amount b of
                  None \<Rightarrow> (Inl (Error 400 ''Validation failed''), coll)
                | Some a \<Rightarrow>
                    (case addContribution now a (note_or_empty (cb_note b)) gid g coll of
                       None \<Rightarrow> (Inl (Error 500 ''Server error while adding contribution''), coll)
                     | Some (g', coll') \<Rightarrow> (Inr g', coll'))))"

text \<open>Sorting by \<open>(a, b) => b.date - a.date\<close>; \<open>Array.prototype.sort\<close> is stable.\<close>

definition sort_newest_first :: "contribution list \<Rightarrow> contribution list" where
  "sort_newest_first cs = sort_key (\<lambda>c. - date c) cs"

record contributions_response =
  r_contributions :: "contribution list"
  totalContributions :: nat
  totalAmount :: real

text \<open>\<open>GET /api/goals/:id/contributions\<close>\<close>

definition get_contributions :: "nat \<Rightarrow> nat \<Rightarrow> goals \<Rightarrow> error + contributions_response" where
  "get_contributions uid gid coll =
     (case findOne gid uid coll of
        None \<Rightarrow> Inl (Error 404 ''Goal not found'')
      | Some g \<Rightarrow>
          (let cs = sort_newest_first (contributions g)
           in Inr \<lparr>r_contributions = cs,
                   totalContributions = length cs,
                   totalAmount = foldl (\<lambda>sum contrib. sum + amount contrib) 0 cs\<rparr>))"

text \<open>
  The JSON body of \<open>POST /api/goals\<close> and \<open>PUT /api/goals/:id\<close>: every field of the
  schema may be present or absent. The routes copy the whole body into the document
  (\<open>{ ...req.body, user }\<close>, \<open>goal[key] = req.body[key]\<close>), so the fields without a
  validator chain, \<open>status\<close> on create and \<open>contributions\<close>, reach the document too.
  \<open>b_targetDate\<close> is the time that \<open>new Date(req.body.targetDate)\<close> denotes.
\<close>

record goal_body =
  b_title :: "string option"
  b_description :: "string option"
  b_targetAmount :: "real option"
  b_currentAmount :: "real option"
  b_targetDate :: "time option"
  b_category :: "string option"
  b_priority :: "string option"
  b_status :: "string option"
  b_contributions :: "contribution_in list option"

text \<open>The validator chains of \<open>POST /api/goals\<close>.\<close>

definition create_validation :: "goal_body \<Rightarrow> bool" where
  "create_validation b \<longleftrightarrow>
     (case b_title b of None \<Rightarrow> False | Some t \<Rightarrow> trim t \<noteq> [] \<and> length (trim t) \<le> 100) \<and>
     (case b_targetAmount b of None \<Rightarrow> False | Some a \<Rightarrow> 1 / 100 \<le> a) \<and>
     (case b_targetDate b of None \<Rightarrow> False | Some d \<Rightarrow> True) \<and>
     (case b_category b of None \<Rightarrow> False | Some c \<Rightarrow> c \<noteq> []) \<and>
     (case b_description b of None \<Rightarrow> True | Some d \<Rightarrow> length d \<le> 500) \<and>
     (case b_priority b of None \<Rightarrow> True | Some p \<Rightarrow> p \<in> set goal_priorities) \<and>
     (case b_currentAmount b of None \<Rightarrow> True | Some a \<Rightarrow> 0 \<le> a)"

text \<open>
  \<open>new Goal(goalData)\<close>: the defaults of the schema fill the absent fields, the
  \<open>trim\<close> setters run, and the first save stamps \<open>createdAt\<close>.
\<close>

definition new_goal ::
  "time \<Rightarrow> nat \<Rightarrow> string \<Rightarrow> real \<Rightarrow> time \<Rightarrow> string \<Rightarrow> goal_body \<Rightarrow> goal" where
  "new_goal now uid t ta td cat b =
     \<lparr>user = uid,
      title = trim t,
      description = map_option trim (b_description b),
      targetAmount = ta,
      currentAmount = (case b_currentAmount b of None \<Rightarrow> 0 | Some a \<Rightarrow> a),
      targetDate = td,
      category = cat,
      priority = (case b_priority b of None \<Rightarrow> ''Medium'' | Some p \<Rightarrow> p),
      status = (case b_status b of None \<Rightarrow> ''Active'' | Some s \<Rightarrow> s),
      contributions =
        (case b_contributions b of None \<Rightarrow> [] | Some cs \<Rightarrow> map (cast_contribution now) cs),
      createdAt = now\<rparr>"

text \<open>
  \<open>POST /api/goals\<close>. \<open>nid\<close> is the \<open>_id\<close> that the driver generates; an \<open>_id\<close>
  that is already taken is the duplicate-key error of the collection, which the
  \<open>catch\<close> block answers with 500.
\<close>

definition create_goal ::
  "time \<Rightarrow> nat \<Rightarrow> nat \<Rightarrow> goal_body \<Rightarrow> goals \<Rightarrow> (error + goal) \<times> goals" where
  "create_goal now uid nid b coll =
     (if \<not> create_validation b then (Inl (Error 400 ''Validation failed''), coll)
      else case (b_title b, b_targetAmount b, b_targetDate b, b_category b) of
        (Some t, Some ta, Some td, Some cat) \<Rightarrow>
          if td \<le> now then (Inl (Error 400 ''Target date must be in the future''), coll)
          else (let g = new_goal now uid t ta td cat b
                in if \<not> goal_valid now g then (Inl (Error 400 ''Validation failed''), coll)
                   else if map_of coll nid \<noteq> None
                   then (Inl (Error 500 ''Server error while creating goal''), coll)
                   else (Inr g, coll @ [(nid, g)]))
      | _ \<Rightarrow> (Inl (Error 400 ''Validation failed''), coll))"

text \<open>The validator chains of \<open>PUT /api/goals/:id\<close>: every field is optional.\<close>

definition update_validation :: "goal_body \<Rightarrow> bool" where
  "update_validation b \<longleftrightarrow>
     (case b_title b of None \<Rightarrow> True | Some t \<Rightarrow> trim t \<noteq> [] \<and> length (trim t) \<le> 100) \<and>
     (case b_targetAmount b of None \<Rightarrow> True | Some a \<Rightarrow> 1 / 100 \<le> a) \<and>
     (case b_category b of None \<Rightarrow> True | Some c \<Rightarrow> c \<noteq> []) \<and>
     (case b_description b of None \<Rightarrow> True | Some d \<Rightarrow> length d \<le> 500) \<and>
     (case b_priority b of None \<Rightarrow> True | Some p \<Rightarrow> p \<in> set goal_priorities) \<and>
     (case b_status b of None \<Rightarrow> True | Some s \<Rightarrow> s \<in> set goal_statuses) \<and>
     (case b_currentAmount b of None \<Rightarrow> True | Some a \<Rightarrow> 0 \<le> a)"

text \<open>
  \<open>Object.keys(req.body).forEach(key => { goal[key] = req.body[key] })\<close>: the fields
  that the body holds overwrite those of the document, through the setters.
\<close>

definition assign_body :: "time \<Rightarrow> goal_body \<Rightarrow> goal \<Rightarrow> goal" where
  "assign_body now b g =
     g\<lparr>title := (case b_title b of None \<Rightarrow> title g | Some t \<Rightarrow> trim t),
       description :=
         (case b_description b of None \<Rightarrow> description g | Some d \<Rightarrow> Some (trim d)),
       targetAmount := (case b_targetAmount b of None \<Rightarrow> targetAmount g | Some a \<Rightarrow> a),
       currentAmount := (case b_currentAmount b of None \<Rightarrow> currentAmount g | Some a \<Rightarrow> a),
       targetDate := (case b_targetDate b of None \<Rightarrow> targetDate g | Some d \<Rightarrow> d),
       category := (case b_category b of None \<Rightarrow> category g | Some c \<Rightarrow> c),
       priority := (case b_priority b of None \<Rightarrow> priority g | Some p \<Rightarrow> p),
       status := (case b_status b of None \<Rightarrow> status g | Some s \<Rightarrow> s),
       contributions :=
         (case b_contributions b of
            None \<Rightarrow> contributions g
          | Some cs \<Rightarrow> map (cast_contribution now) cs)\<rparr>"

text \<open>The block under the comment \<open>Auto-update status based on progress\<close>.\<close>

definition auto_update_status :: "goal \<Rightarrow> goal" where
  "auto_update_status g =
     (if targetAmount g \<le> currentAmount g \<and> status g = ''Active''
      then g\<lparr>status := ''Completed''\<rparr> else g)"

text \<open>\<open>PUT /api/goals/:id\<close>. Here a rejected \<open>save()\<close> is answered with 400.\<close>

definition update_goal ::
  "time \<Rightarrow> nat \<Rightarrow> nat \<Rightarrow> goal_body \<Rightarrow> goals \<Rightarrow> (error + goal) \<times> goals" where
  "update_goal now uid gid b coll =
     (if \<not> update_validation b then (Inl (Error 400 ''Validation failed''), coll)
      else case findOne gid uid coll of
        None \<Rightarrow> (Inl (Error 404 ''Goal not found''), coll)
      | Some g \<Rightarrow>
          if (case b_targetDate b of None \<Rightarrow> False | Some td \<Rightarrow> td \<le> now)
          then (Inl (Error 400 ''Target date must be in the future''), coll)
          else (let g' = auto_update_status (assign_body now b g)
                in case save now gid g' coll of
                     None \<Rightarrow> (Inl (Error 400 ''Validation failed''), coll)
                   | Some coll' \<Rightarrow> (Inr g', coll')))"

text \<open>\<open>PUT /api/goals/:id/status\<close>\<close>

definition update_status ::
  "time \<Rightarrow> nat \<Rightarrow> nat \<Rightarrow> string \<Rightarrow> goals \<Rightarrow> (error + goal) \<times> goals" where
  "update_status now uid gid s coll =
     (if \<not> s \<in> set goal_statuses then (Inl (Error 400 ''Validation failed''), coll)
      else case findOne gid uid coll of
        None \<Rightarrow> (Inl (Error 404 ''Goal not found''), coll)
      | Some g \<Rightarrow>
          (case save now gid (g\<lparr>status := s\<rparr>) coll of
             None \<Rightarrow> (Inl (Error 500 ''Server error while updating goal status''), coll)
           | Some coll' \<Rightarrow> (Inr (g\<lparr>status := s\<rparr>), coll')))"


section \<open>The goals progress report (the dashboard router in backend/middleware/auth.js)\<close>

text \<open>\<open>Goal.find({ user: userId })\<close>\<close>

definition find_goals :: "nat \<Rightarrow> goals \<Rightarrow> goal list" where
  "find_goals uid coll = filter (\<lambda>g. user g = uid) (map snd coll)"

text \<open>
  One element of \<open>goalsByProgress\<close>. \<open>p_goal\<close> is \<open>...goal.toObject()\<close>: the stored
  fields, without the virtuals, since the schema does not switch them on for
  \<open>toObject\<close>. \<open>Math.ceil\<close> of a quotient is \<open>\<lceil>_\<rceil>\<close>.
\<close>

record progress_entry =
  p_goal :: goal
  progress :: real
  p_remainingAmount :: real
  p_daysRemaining :: int
  daysPassed :: int
  timeProgress :: real
  isOnTrack :: bool
  requiredMonthlyContribution :: real
  contributionHistory :: "contribution list"

definition ms_per_day :: int where
  "ms_per_day = 1000 * 60 * 60 * 24"

definition goal_progress :: "time \<Rightarrow> goal \<Rightarrow> progress_entry" where
  "goal_progress now g =
     (let progress =
            (if 0 < targetAmount g then currentAmount g / targetAmount g * 100 else 0);
          remainingAmount = max (targetAmount g - currentAmount g) 0;
          daysTotal = \<lceil>real_of_int (targetDate g - createdAt g) / real_of_int ms_per_day\<rceil>;
          daysRemaining = \<lceil>real_of_int (targetDate g - now) / real_of_int ms_per_day\<rceil>;
          daysPassed = daysTotal - daysRemaining;
          timeProgress =
            (if 0 < daysTotal then real_of_int daysPassed / real_of_int daysTotal * 100 else 0);
          isOnTrack = (timeProgress \<le> progress);
          monthsRemaining = max (real_of_int daysRemaining / 30) (1 / 10);
          requiredMonthlyContribution = remainingAmount / monthsRemaining
      in \<lparr>p_goal = g,
          progress = progress,
          p_remainingAmount = remainingAmount,
          p_daysRemaining = daysRemaining,
          daysPassed = daysPassed,
          timeProgress = timeProgress,
          isOnTrack = isOnTrack,
          requiredMonthlyContribution = requiredMonthlyContribution,
          contributionHistory = sort_newest_first (contributions g)\<rparr>)"

text \<open>
  \<open>GET /api/dashboard/goals-progress\<close>: the list \<open>goals\<close> of the answer and the two
  counters computed from it. The \<open>overview\<close> block and the per-category aggregation of
  the answer do not depend on the entries and are not modelled.
\<close>

record goals_progress_response =
  gp_goals :: "progress_entry list"
  onTrackGoals :: nat
  behindGoals :: nat

definition goals_progress :: "time \<Rightarrow> nat \<Rightarrow> goals \<Rightarrow> goals_progress_response" where
  "goals_progress now uid coll =
     (let goalsByProgress = map (goal_progress now) (find_goals uid coll)
      in \<lparr>gp_goals = goalsByProgress,
          onTrackGoals =
            length (filter (\<lambda>e. isOnTrack e \<and> status (p_goal e) = ''Active'') goalsByProgress),
          behindGoals =
            length (filter (\<lambda>e. \<not> isOnTrack e \<and> status (p_goal e) = ''Active'') goalsByProgress)\<rparr>)"

section \<open>The Expense model and its reports\<close>

text \<open>
  The fields of \<open>expenseSchema\<close> (backend/models/Expense.js) that the queries below
  read, with the prefix \<open>e_\<close> since a goal has fields of the same names.
  \<open>paymentMethod\<close>, \<open>tags\<close>, \<open>recurring\<close> and \<open>receipt\<close> are read by none of them.
\<close>

record expense =
  e_user :: nat
  e_title :: string
  e_amount :: real
  e_category :: string
  e_description :: "string option"
  e_date :: time
  e_createdAt :: time



subsection \<open>Grouping by category\<close>

text \<open>
  One document of the stage \<open>{ $group: { _id: '$category', totalAmount: { $sum: '$amount' },
  count: { $sum: 1 } } }\<close>. The further accumulators of the category analysis (average,
  minimum, maximum, transactions) do not enter the percentages and are not modelled.
\<close>

record category_group =
  cg_id :: string
  cg_totalAmount :: real
  cg_count :: nat








subsection \<open>\<open>GET /api/expenses\<close> (the expenses router in backend/middleware/auth.js)\<close>

text \<open>
  The query string, already parsed: \<open>q_page\<close> and \<open>q_limit\<close> are what \<open>parseInt\<close>
  reads, the dates what \<open>new Date\<close> reads, the amounts what \<open>parseFloat\<close> reads.
\<close>

record expense_query =
  q_page :: "int option"
  q_limit :: "int option"
  q_category :: "string option"
  q_startDate :: "time option"
  q_endDate :: "time option"
  q_minAmount :: "real option"
  q_maxAmount :: "real option"
  q_search :: "string option"

definition query_validation :: "expense_query \<Rightarrow> bool" where
  "query_validation q \<longleftrightarrow>
     (case q_page q of None \<Rightarrow> True | Some p \<Rightarrow> 1 \<le> p) \<and>
     (case q_limit q of None \<Rightarrow> True | Some l \<Rightarrow> 1 \<le> l \<and> l \<le> 100) \<and>
     (case q_minAmount q of None \<Rightarrow> True | Some a \<Rightarrow> 0 \<le> a) \<and>
     (case q_maxAmount q of None \<Rightarrow> True | Some a \<Rightarrow> 0 \<le> a)"

text \<open>
  The filter object that the route builds. An empty \<open>category\<close> or \<open>search\<close> is falsy
  and adds no condition. \<open>regex\<close> is the case-insensitive \<open>$regex\<close> match of MongoDB,
  pattern first; it fails on an absent description.
\<close>

definition matches ::
  "(string \<Rightarrow> string \<Rightarrow> bool) \<Rightarrow> nat \<Rightarrow> expense_query \<Rightarrow> expense \<Rightarrow> bool" where
  "matches regex uid q e \<longleftrightarrow>
     e_user e = uid \<and>
     (case q_category q of None \<Rightarrow> True | Some c \<Rightarrow> c = [] \<or> e_category e = c) \<and>
     (case q_startDate q of None \<Rightarrow> True | Some d \<Rightarrow> d \<le> e_date e) \<and>
     (case q_endDate q of None \<Rightarrow> True | Some d \<Rightarrow> e_date e \<le> d) \<and>
     (case q_minAmount q of None \<Rightarrow> True | Some a \<Rightarrow> a \<le> e_amount e) \<and>
     (case q_maxAmount q of None \<Rightarrow> True | Some a \<Rightarrow> e_amount e \<le> a) \<and>
     (case q_search q of
        None \<Rightarrow> True
      | Some s \<Rightarrow> s = [] \<or> regex s (e_title e) \<or>
          (case e_description e of None \<Rightarrow> False | Some d \<Rightarrow> regex s d))"

text \<open>
  \<open>.sort({ date: -1, createdAt: -1 })\<close>: by creation time, then stably by date, both
  descending.
\<close>

definition sort_expenses :: "expense list \<Rightarrow> expense list" where
  "sort_expenses es = sort_key (\<lambda>e. - e_date e) (sort_key (\<lambda>e. - e_createdAt e) es)"

record pagination =
  currentPage :: int
  totalPages :: int
  totalItems :: int
  itemsPerPage :: int
  hasNext :: bool
  hasPrev :: bool

record summary =
  s_totalAmount :: real
  s_count :: nat
  s_averageAmount :: real

record expenses_response =
  r_expenses :: "expense list"
  r_pagination :: pagination
  r_summary :: summary

definition get_expenses ::
  "(string \<Rightarrow> string \<Rightarrow> bool) \<Rightarrow> nat \<Rightarrow> expense_query \<Rightarrow> expense list
     \<Rightarrow> error + expenses_response" where
  "get_expenses regex uid q es =
     (if \<not> query_validation q then Inl (Error 400 ''Validation failed'')
      else
        (let page = (case q_page q of None \<Rightarrow> 1 | Some p \<Rightarrow> p);
             limit = (case q_limit q of None \<Rightarrow> 10 | Some l \<Rightarrow> l);
             found = filter (matches regex uid q) es;
             skip = (page - 1) * limit;
             expenses = take (nat limit) (drop (nat skip) (sort_expenses found));
             total = int (length found);
             totalPages = \<lceil>real_of_int total / real_of_int limit\<rceil>
         in Inr \<lparr>r_expenses = expenses,
                 r_pagination =
                   \<lparr>currentPage = page, totalPages = totalPages, totalItems = total,
                    itemsPerPage = limit, hasNext = (page < totalPages), hasPrev = (1 < page)\<rparr>,
                 r_summary =
                   (if found = []
                    then \<lparr>s_totalAmount = 0, s_count = 0, s_averageAmount = 0\<rparr>
                    else \<lparr>s_totalAmount = sum_list (map e_amount found),
                          s_count = length found,
                          s_averageAmount =
                            sum_list (map e_amount found) / real (length found)\<rparr>)\<rparr>))"

section \<open>Example data\<close>

definition demo_goal :: goal where
  "demo_goal = \<lparr>user = 7, title = ''Trip'', description = None, targetAmount = 100,
     currentAmount = 0, targetDate = 5000, category = ''Vacation'', priority = ''Medium'',
     status = ''Active'', contributions = [], createdAt = 0\<rparr>"

definition empty_body :: goal_body where
  "empty_body = \<lparr>b_title = None, b_description = None, b_targetAmount = None,
     b_currentAmount = None, b_targetDate = None, b_category = None, b_priority = None,
     b_status = None, b_contributions = None\<rparr>"

definition demo_body :: goal_body where
  "demo_body = empty_body\<lparr>b_title := Some ''Trip'', b_targetAmount := Some 100,
     b_targetDate := Some 5000, b_category := Some ''Vacation''\<rparr>"

definition demo_done :: goal where
  "demo_done = demo_goal\<lparr>currentAmount := 100, status := ''Completed'',
     contributions := [\<lparr>amount = 30, date = 1000, note' = ''first''\<rparr>,
                       \<lparr>amount = 70, date = 2000, note' = []\<rparr>]\<rparr>"





definition padded_note_body :: contribute_body where
  "padded_note_body = \<lparr>cb_amount = Some 50, cb_note = Some '' hi ''\<rparr>"

definition demo_half :: goal where
  "demo_half = demo_goal\<lparr>currentAmount := 50,
     contributions := [\<lparr>amount = 50, date = 1000, note' = ''hi''\<rparr>]\<rparr>"

definition title_only_body :: goal_body where
  "title_only_body = empty_body\<lparr>b_title := Some ''Trip to Rome''\<rparr>"

definition raise_amount_body :: goal_body where
  "raise_amount_body = empty_body\<lparr>b_currentAmount := Some 150\<rparr>"

definition seeded_amount_body :: goal_body where
  "seeded_amount_body = demo_body\<lparr>b_currentAmount := Some 500\<rparr>"

definition seeded_amount_goal :: goal where
  "seeded_amount_goal = demo_goal\<lparr>currentAmount := 500\<rparr>"

definition lowered_body :: goal_body where
  "lowered_body = empty_body\<lparr>b_currentAmount := Some 20\<rparr>"

definition lowered_goal :: goal where
  "lowered_goal = demo_half\<lparr>currentAmount := 20\<rparr>"

definition overshoot_goal :: goal where
  "overshoot_goal = demo_half\<lparr>currentAmount := 150, status := ''Completed'',
     contributions := [\<lparr>amount = 50, date = 1000, note' = ''hi''\<rparr>,
                       \<lparr>amount = 100, date = 2000, note' = []\<rparr>]\<rparr>"



definition demo_expense :: "string \<Rightarrow> real \<Rightarrow> expense" where
  "demo_expense c a = \<lparr>e_user = 7, e_title = ''item'', e_amount = a, e_category = c,
     e_description = None, e_date = 500, e_createdAt = 500\<rparr>"


definition three_expenses :: "expense list" where
  "three_expenses =
     [demo_expense ''Groceries'' 30, demo_expense ''Travel'' 50, demo_expense ''Groceries'' 20]"

definition page_query :: expense_query where
  "page_query = \<lparr>q_page = Some 1, q_limit = Some 1, q_category = Some ''Groceries'',
     q_startDate = None, q_endDate = None, q_minAmount = None, q_maxAmount = None,
     q_search = None\<rparr>"


section \<open>Properties of the goal ledger\<close>

lemmas goal_enums = goal_categories_def goal_priorities_def goal_statuses_def

lemmas goal_eval = contribute_def contribute_validation_def note_or_empty_def findOne_def
  addContribution_def addContribution_doc_def push_contribution_def cast_contribution_def
  save_def goal_valid_def contribution_valid_def goal_enums trim_def is_space_def
  create_goal_def create_validation_def new_goal_def update_goal_def update_validation_def
  assign_body_def auto_update_status_def update_status_def get_contributions_def
  sort_newest_first_def demo_goal_def empty_body_def demo_body_def Let_def

lemma findOne_update_same:
  "user g = uid \<Longrightarrow> findOne gid uid (AList.update gid g coll) = Some g"
  by (simp add: findOne_def update_conv')

lemma findOne_user: "findOne gid uid coll = Some g \<Longrightarrow> user g = uid"
  by (auto simp: findOne_def split: option.splits if_splits)





lemma create_goal_shape:
  assumes "create_goal now uid nid b coll = (Inr g, coll')"
  shows "\<exists>t ta td cat. g = new_goal now uid t ta td cat b \<and> goal_valid now g \<and>
     map_of coll nid = None \<and> coll' = coll @ [(nid, g)]"
  using assms
  by (auto simp: create_goal_def Let_def split: if_splits option.splits prod.splits)

lemma create_goal_success:
  assumes "create_goal now uid nid b coll = (Inr g, coll')"
  shows "findOne nid uid coll' = Some g \<and> goal_valid now g \<and>
     currentAmount g = (case b_currentAmount b of None \<Rightarrow> 0 | Some a \<Rightarrow> a) \<and>
     contributions g =
       (case b_contributions b of None \<Rightarrow> [] | Some cs \<Rightarrow> map (cast_contribution now) cs)"
proof -
  from create_goal_shape [OF assms] obtain t ta td cat where
    g: "g = new_goal now uid t ta td cat b" and v: "goal_valid now g" and
    fresh: "map_of coll nid = None" and coll': "coll' = coll @ [(nid, g)]"
    by blast
  have "user g = uid" by (simp add: g new_goal_def)
  then have "findOne nid uid coll' = Some g"
    using fresh by (simp add: findOne_def coll' map_add_def)
  then show ?thesis using v by (simp add: g new_goal_def)
qed


subsection \<open>Claim C1: the running total is the sum of the contributions\<close>





subsection \<open>Claim C2: the effect of one contribution\<close>





subsection \<open>Claim C3: no contribution to a goal that is not Active\<close>

text \<open>
  Claim C3. When the goal of the request exists, belongs to the user and its status is
  not Active, the contribute request fails whatever its body is and the collection is
  left as it was; a body that passes the validator chain is answered with 400 and the
  message of the business rule, \<open>Cannot contribute to inactive goal\<close>.
\<close>

theorem contribute_inactive_rejected:
  assumes "findOne gid uid coll = Some g" and "status g \<noteq> ''Active''"
  shows "snd (contribute now uid gid b coll) = coll \<and>
     (\<exists>e. fst (contribute now uid gid b coll) = Inl e) \<and>
     (contribute_validation b \<longrightarrow>
        contribute now uid gid b coll =
          (Inl (Error 400 ''Cannot contribute to inactive goal''), coll))"
  using assms by (simp add: contribute_def)

theorem contribute_inactive_rejected_witness:
  "findOne 1 7 [(1, demo_goal\<lparr>status := ''Paused''\<rparr>)] = Some (demo_goal\<lparr>status := ''Paused''\<rparr>) \<and>
   status (demo_goal\<lparr>status := ''Paused''\<rparr>) \<noteq> ''Active'' \<and>
   contribute_validation padded_note_body \<and>
   contribute 1000 7 1 padded_note_body [(1, demo_goal\<lparr>status := ''Paused''\<rparr>)] =
     (Inl (Error 400 ''Cannot contribute to inactive goal''), [(1, demo_goal\<lparr>status := ''Paused''\<rparr>)])"
proof -
  have h1: "findOne 1 7 [(1, demo_goal\<lparr>status := ''Paused''\<rparr>)] = Some (demo_goal\<lparr>status := ''Paused''\<rparr>)"
    by (simp add: goal_eval)
  have h2: "status (demo_goal\<lparr>status := ''Paused''\<rparr>) \<noteq> ''Active''" by simp
  have h3: "contribute_validation padded_note_body"
    by (simp add: contribute_validation_def padded_note_body_def)
  from contribute_inactive_rejected [OF h1 h2, of 1000 padded_note_body]
  show ?thesis using h1 h2 h3 by simp
qed

subsection \<open>Claim C4: updating a goal whose target date has passed\<close>

text \<open>
  The route checks the target date of the body only (\<open>if (req.body.targetDate)\<close>, under
  the comment \<open>Check if target date is in the future (if being updated)\<close>), but it ends
  with \<open>goal.save()\<close>, and the validator of the schema runs there on the stored
  \<open>targetDate\<close> as well. So no update that leaves the date of an overdue goal alone gets
  through.
\<close>

lemma update_overdue_rejected:
  assumes "findOne gid uid coll = Some g" and "targetDate g \<le> now" and "b_targetDate b = None"
  shows "\<exists>e. update_goal now uid gid b coll = (Inl e, coll)"
proof -
  have "targetDate (auto_update_status (assign_body now b g)) = targetDate g"
    using assms(3) by (simp add: auto_update_status_def assign_body_def)
  then have "\<not> goal_valid now (auto_update_status (assign_body now b g))"
    using assms(2) by (simp add: goal_valid_def)
  then show ?thesis using assms(1,3) by (simp add: update_goal_def save_def Let_def)
qed

text \<open>
  Claim C4 says that an update of an overdue goal that does not touch \<open>targetDate\<close>, a
  change of the title for example, succeeds. At the goal \<open>demo_goal\<close>, due at 5000, and
  the clock at 9000, the body passes the validator chain and holds a title only; the
  route answers 400 \<open>Validation failed\<close> and the collection keeps the old document.
\<close>

theorem update_overdue_title_rejected:
  "findOne 1 7 [(1, demo_goal)] = Some demo_goal \<and> targetDate demo_goal < 9000 \<and>
   update_validation title_only_body \<and> b_targetDate title_only_body = None \<and>
   update_goal 9000 7 1 title_only_body [(1, demo_goal)] =
     (Inl (Error 400 ''Validation failed''), [(1, demo_goal)])"
  by (simp add: goal_eval title_only_body_def)

subsection \<open>Claim C9: the generic update completes a goal too\<close>

text \<open>
  Claim C9. When the document with the fields of the body merged in has
  \<open>currentAmount \<ge> targetAmount\<close> and the status Active, the goal that a successful
  \<open>PUT /api/goals/:id\<close> saves and returns has the status Completed.
\<close>

theorem update_auto_completes:
  assumes "findOne gid uid coll = Some g"
    and "update_goal now uid gid b coll = (Inr g', coll')"
    and "targetAmount (assign_body now b g) \<le> currentAmount (assign_body now b g)"
    and "status (assign_body now b g) = ''Active''"
  shows "status g' = ''Completed'' \<and> findOne gid uid coll' = Some g'"
proof -
  from assms(1,2) have g': "g' = auto_update_status (assign_body now b g)"
    and coll': "coll' = AList.update gid g' coll"
    by (auto simp: update_goal_def save_def Let_def split: if_splits option.splits)
  have "user g' = uid" using findOne_user [OF assms(1)]
    by (simp add: g' auto_update_status_def assign_body_def)
  then have "findOne gid uid coll' = Some g'" unfolding coll' by (rule findOne_update_same)
  moreover have "status g' = ''Completed''"
    using assms(3,4) by (simp add: g' auto_update_status_def)
  ultimately show ?thesis by simp
qed

theorem update_auto_completes_witness:
  "findOne 1 7 [(1, demo_goal)] = Some demo_goal \<and>
   update_goal 1000 7 1 raise_amount_body [(1, demo_goal)] =
     (Inr (demo_goal\<lparr>currentAmount := 150, status := ''Completed''\<rparr>),
      [(1, demo_goal\<lparr>currentAmount := 150, status := ''Completed''\<rparr>)]) \<and>
   targetAmount (assign_body 1000 raise_amount_body demo_goal)
     \<le> currentAmount (assign_body 1000 raise_amount_body demo_goal) \<and>
   status (assign_body 1000 raise_amount_body demo_goal) = ''Active'' \<and>
   status (demo_goal\<lparr>currentAmount := 150, status := ''Completed''\<rparr>) = ''Completed'' \<and>
   findOne 1 7 [(1, demo_goal\<lparr>currentAmount := 150, status := ''Completed''\<rparr>)] =
     Some (demo_goal\<lparr>currentAmount := 150, status := ''Completed''\<rparr>)"
proof -
  have h1: "findOne 1 7 [(1, demo_goal)] = Some demo_goal" by (simp add: goal_eval)
  have h2: "update_goal 1000 7 1 raise_amount_body [(1, demo_goal)] =
     (Inr (demo_goal\<lparr>currentAmount := 150, status := ''Completed''\<rparr>),
      [(1, demo_goal\<lparr>currentAmount := 150, status := ''Completed''\<rparr>)])"
    by (simp add: goal_eval raise_amount_body_def)
  have h3: "targetAmount (assign_body 1000 raise_amount_body demo_goal)
     \<le> currentAmount (assign_body 1000 raise_amount_body demo_goal)"
    by (simp add: goal_eval raise_amount_body_def)
  have h4: "status (assign_body 1000 raise_amount_body demo_goal) = ''Active''"
    by (simp add: goal_eval raise_amount_body_def)
  from update_auto_completes [OF h1 h2 h3 h4] h1 h2 h3 h4
  show ?thesis by blast
qed

subsection \<open>Claim C10: the total of the contributions list\<close>

lemma foldl_sum_amount:
  "foldl (\<lambda>sum contrib. sum + amount contrib) s cs = s + sum_list (map amount cs)"
  by (induction cs arbitrary: s) simp_all

lemma sum_amount_sort: "sum_list (map amount (sort_newest_first cs)) = sum_list (map amount cs)"
proof -
  have "mset (map amount (sort_newest_first cs)) = mset (map amount cs)"
    by (simp add: sort_newest_first_def)
  then show ?thesis by (metis sum_mset_sum_list)
qed

lemma length_sort_newest_first: "length (sort_newest_first cs) = length cs"
  by (simp add: sort_newest_first_def)

lemma get_contributions_found:
  assumes "findOne gid uid coll = Some g"
  shows "get_contributions uid gid coll =
     Inr \<lparr>r_contributions = sort_newest_first (contributions g),
          totalContributions = length (contributions g),
          totalAmount = sum_list (map amount (contributions g))\<rparr>"
  using assms
  by (simp add: get_contributions_def Let_def foldl_sum_amount sum_amount_sort
      length_sort_newest_first)

lemma update_goal_success:
  assumes "findOne gid uid coll = Some g" and "update_goal now uid gid b coll = (Inr g', coll')"
  shows "g' = auto_update_status (assign_body now b g) \<and> findOne gid uid coll' = Some g'"
proof -
  from assms have g': "g' = auto_update_status (assign_body now b g)"
    and coll': "coll' = AList.update gid g' coll"
    by (auto simp: update_goal_def save_def Let_def split: if_splits option.splits)
  have "user g' = uid" using findOne_user [OF assms(1)]
    by (simp add: g' auto_update_status_def assign_body_def)
  then have "findOne gid uid coll' = Some g'" unfolding coll' by (rule findOne_update_same)
  then show ?thesis using g' by simp
qed

text \<open>
  Claim C10. \<open>GET /api/goals/:id/contributions\<close> answers with the contributions newest
  first, their number, and as \<open>totalAmount\<close> the sum of their amounts: \<open>currentAmount\<close>
  does not enter the answer. A goal created with a seeded, non-zero \<open>currentAmount\<close> and
  no contributions has \<open>totalAmount\<close> 0, different from its \<open>currentAmount\<close>; a goal
  whose \<open>currentAmount\<close> the generic update sets to a value other than the sum of its
  contributions has a \<open>totalAmount\<close> different from its \<open>currentAmount\<close>.
\<close>

theorem contributions_total_recomputed:
  "(findOne gid uid coll = Some g \<longrightarrow>
      get_contributions uid gid coll =
        Inr \<lparr>r_contributions = sort_newest_first (contributions g),
             totalContributions = length (contributions g),
             totalAmount = sum_list (map amount (contributions g))\<rparr>) \<and>
   (create_goal now uid gid b coll0 = (Inr g1, coll1) \<and> b_currentAmount b = Some c \<and>
      b_contributions b = None \<and> c \<noteq> 0 \<longrightarrow>
      (\<exists>r. get_contributions uid gid coll1 = Inr r \<and> totalAmount r = 0 \<and>
           currentAmount g1 = c \<and> totalAmount r \<noteq> currentAmount g1)) \<and>
   (findOne gid uid coll = Some g \<and> update_goal now uid gid b coll = (Inr g2, coll2) \<and>
      b_currentAmount b = Some c \<and> b_contributions b = None \<and>
      c \<noteq> sum_list (map amount (contributions g)) \<longrightarrow>
      (\<exists>r. get_contributions uid gid coll2 = Inr r \<and>
           totalAmount r = sum_list (map amount (contributions g)) \<and>
           currentAmount g2 = c \<and> totalAmount r \<noteq> currentAmount g2))"
proof (intro conjI impI)
  assume "findOne gid uid coll = Some g"
  then show "get_contributions uid gid coll =
        Inr \<lparr>r_contributions = sort_newest_first (contributions g),
             totalContributions = length (contributions g),
             totalAmount = sum_list (map amount (contributions g))\<rparr>"
    by (rule get_contributions_found)
next
  assume a: "create_goal now uid gid b coll0 = (Inr g1, coll1) \<and> b_currentAmount b = Some c \<and>
      b_contributions b = None \<and> c \<noteq> 0"
  then have f: "findOne gid uid coll1 = Some g1" and ca: "currentAmount g1 = c"
    and cs: "contributions g1 = []"
    using create_goal_success [of now uid gid b coll0 g1 coll1] by simp_all
  show "\<exists>r. get_contributions uid gid coll1 = Inr r \<and> totalAmount r = 0 \<and>
           currentAmount g1 = c \<and> totalAmount r \<noteq> currentAmount g1"
    using a ca cs by (simp add: get_contributions_found [OF f])
next
  assume a: "findOne gid uid coll = Some g \<and> update_goal now uid gid b coll = (Inr g2, coll2) \<and>
      b_currentAmount b = Some c \<and> b_contributions b = None \<and>
      c \<noteq> sum_list (map amount (contributions g))"
  then have g2: "g2 = auto_update_status (assign_body now b g)"
    and f: "findOne gid uid coll2 = Some g2"
    using update_goal_success [of gid uid coll g now b g2 coll2] by simp_all
  have ca: "currentAmount g2 = c" and cs: "contributions g2 = contributions g"
    using a by (simp_all add: g2 auto_update_status_def assign_body_def)
  show "\<exists>r. get_contributions uid gid coll2 = Inr r \<and>
           totalAmount r = sum_list (map amount (contributions g)) \<and>
           currentAmount g2 = c \<and> totalAmount r \<noteq> currentAmount g2"
    using a ca cs by (simp add: get_contributions_found [OF f])
qed

lemma seeded_amount_create:
  "create_goal 0 7 1 seeded_amount_body [] = (Inr seeded_amount_goal, [(1, seeded_amount_goal)])"
  by (simp add: goal_eval seeded_amount_body_def seeded_amount_goal_def)

lemma lowered_update:
  "update_goal 2000 7 1 lowered_body [(1, demo_half)] = (Inr lowered_goal, [(1, lowered_goal)])"
  by (simp add: goal_eval lowered_body_def lowered_goal_def demo_half_def)

theorem contributions_total_recomputed_witness:
  "(findOne 1 7 [(1, demo_done)] = Some demo_done \<and>
      get_contributions 7 1 [(1, demo_done)] =
        Inr \<lparr>r_contributions = [\<lparr>amount = 70, date = 2000, note' = []\<rparr>,
                                 \<lparr>amount = 30, date = 1000, note' = ''first''\<rparr>],
             totalContributions = 2, totalAmount = 100\<rparr>) \<and>
   (create_goal 0 7 1 seeded_amount_body [] = (Inr seeded_amount_goal, [(1, seeded_amount_goal)]) \<and>
      b_currentAmount seeded_amount_body = Some 500 \<and>
      b_contributions seeded_amount_body = None \<and> (500::real) \<noteq> 0 \<and>
      (\<exists>r. get_contributions 7 1 [(1, seeded_amount_goal)] = Inr r \<and> totalAmount r = 0 \<and>
           currentAmount seeded_amount_goal = 500 \<and> totalAmount r \<noteq> currentAmount seeded_amount_goal)) \<and>
   (findOne 1 7 [(1, demo_half)] = Some demo_half \<and>
      update_goal 2000 7 1 lowered_body [(1, demo_half)] = (Inr lowered_goal, [(1, lowered_goal)]) \<and>
      b_currentAmount lowered_body = Some 20 \<and> b_contributions lowered_body = None \<and>
      (20::real) \<noteq> sum_list (map amount (contributions demo_half)) \<and>
      (\<exists>r. get_contributions 7 1 [(1, lowered_goal)] = Inr r \<and>
           totalAmount r = sum_list (map amount (contributions demo_half)) \<and>
           currentAmount lowered_goal = 20 \<and> totalAmount r \<noteq> currentAmount lowered_goal))"
proof -
  have a1: "findOne 1 7 [(1, demo_done)] = Some demo_done"
    by (simp add: goal_eval demo_done_def)
  have b1: "b_currentAmount seeded_amount_body = Some 500"
    "b_contributions seeded_amount_body = None" "(500::real) \<noteq> 0"
    by (simp_all add: seeded_amount_body_def demo_body_def empty_body_def)
  have c1: "findOne 1 7 [(1, demo_half)] = Some demo_half"
    by (simp add: goal_eval demo_half_def)
  have c2: "b_currentAmount lowered_body = Some 20" "b_contributions lowered_body = None"
    "(20::real) \<noteq> sum_list (map amount (contributions demo_half))"
    by (simp_all add: lowered_body_def empty_body_def demo_half_def)
  have s: "sort_newest_first (contributions demo_done) =
     [\<lparr>amount = 70, date = 2000, note' = []\<rparr>, \<lparr>amount = 30, date = 1000, note' = ''first''\<rparr>]"
    "length (contributions demo_done) = 2"
    "sum_list (map amount (contributions demo_done)) = 100"
    by (simp_all add: demo_done_def sort_newest_first_def)
  have A: "get_contributions 7 1 [(1, demo_done)] =
        Inr \<lparr>r_contributions = [\<lparr>amount = 70, date = 2000, note' = []\<rparr>,
                                 \<lparr>amount = 30, date = 1000, note' = ''first''\<rparr>],
             totalContributions = 2, totalAmount = 100\<rparr>"
    using contributions_total_recomputed [of 1 7 "[(1, demo_done)]" demo_done] a1 s by simp
  note B = contributions_total_recomputed [of 1 7 "[(1, demo_done)]" demo_done
      0 seeded_amount_body "[]" seeded_amount_goal "[(1, seeded_amount_goal)]" 500]
  note C = contributions_total_recomputed [of 1 7 "[(1, demo_half)]" demo_half
      2000 lowered_body "[]" seeded_amount_goal "[(1, seeded_amount_goal)]" 20
      lowered_goal "[(1, lowered_goal)]"]
  show ?thesis
    using A B C a1 b1 c1 c2 seeded_amount_create lowered_update by blast
qed

section \<open>Properties of the goals progress report\<close>

lemmas progress_eval = goals_progress_def find_goals_def goal_progress_def ms_per_day_def
  progressPercentage_def

subsection \<open>Claim C5: the reported progress percentage\<close>

text \<open>
  Claim C5 says that the progress percentage of an entry of the report is
  \<open>min(currentAmount / targetAmount \<times> 100, 100)\<close> and never exceeds 100. The virtual
  \<open>progressPercentage\<close> of the model is capped so, but the report recomputes the value
  without the cap and does not emit the virtual. A contribution of 100 to a goal of 100
  that holds 50 already is accepted and leaves 150 in it; the report then says 150,
  where the virtual and the formula of the claim say 100.
\<close>

theorem goals_progress_uncapped:
  "contribute 2000 7 1 \<lparr>cb_amount = Some 100, cb_note = None\<rparr> [(1, demo_half)] =
     (Inr overshoot_goal, [(1, overshoot_goal)]) \<and>
   map progress (gp_goals (goals_progress 3000 7 [(1, overshoot_goal)])) = [150] \<and>
   progressPercentage overshoot_goal = 100 \<and>
   min (currentAmount overshoot_goal / targetAmount overshoot_goal * 100) 100 = 100"
  by (simp add: goal_eval progress_eval overshoot_goal_def demo_half_def)

text \<open>In general the report exceeds 100 as soon as the goal holds more than its target.\<close>

lemma goal_progress_progress:
  "progress (goal_progress now g) =
     (if 0 < targetAmount g then currentAmount g / targetAmount g * 100 else 0)"
  by (simp add: goal_progress_def Let_def)

lemma goal_progress_exceeds:
  assumes "0 < targetAmount g" and "targetAmount g < currentAmount g"
  shows "100 < progress (goal_progress now g)"
  using assms by (simp add: goal_progress_progress pos_less_divide_eq)

subsection \<open>Claim C6: on track\<close>






section \<open>Properties of the expense reports\<close>






lemma sum_shares:
  "sum_list (map (\<lambda>cat. cg_totalAmount cat / t * 100) gs) =
     sum_list (map cg_totalAmount gs) / t * 100"
  by (induction gs) (simp_all add: add_divide_distrib distrib_right)







subsection \<open>Claim C7: the percentage shares of the categories\<close>








subsection \<open>Claim C8: the pagination of the expense list\<close>

lemma page_less_ceiling:
  assumes "1 \<le> (l::int)"
  shows "p < \<lceil>real_of_int t / real_of_int l\<rceil> \<longleftrightarrow> p * l < t"
proof -
  have l: "0 < real_of_int l" using assms by simp
  have "p < \<lceil>real_of_int t / real_of_int l\<rceil> \<longleftrightarrow> real_of_int p < real_of_int t / real_of_int l"
    by (rule less_ceiling_iff)
  also have "\<dots> \<longleftrightarrow> real_of_int p * real_of_int l < real_of_int t"
    using l by (simp add: pos_less_divide_eq)
  also have "\<dots> \<longleftrightarrow> p * l < t"
    by (metis of_int_less_iff of_int_mult)
  finally show ?thesis .
qed

lemma set_sort_expenses: "set (sort_expenses es) = set es"
  by (simp add: sort_expenses_def)

text \<open>
  Claim C8. Every call of \<open>GET /api/expenses\<close> whose query passes validation (a page of
  at least 1 and a limit from 1 to 100 when given, 1 and 10 otherwise) is answered with
  a page: \<open>totalItems\<close> counts the expenses of the user that satisfy the filter,
  \<open>totalPages = \<lceil>totalItems / itemsPerPage\<rceil>\<close>, \<open>hasNext\<close> holds exactly when
  \<open>currentPage < totalPages\<close>, which is when expenses remain beyond this page,
  \<open>hasPrev\<close> holds exactly when \<open>currentPage > 1\<close>, the page holds at most
  \<open>itemsPerPage\<close> expenses and each of them is an expense of the user that satisfies the
  filter.
\<close>

theorem expenses_pagination:
  assumes "query_validation q"
  shows "\<exists>r. get_expenses regex uid q es = Inr r \<and>
     1 \<le> currentPage (r_pagination r) \<and>
     1 \<le> itemsPerPage (r_pagination r) \<and> itemsPerPage (r_pagination r) \<le> 100 \<and>
     totalItems (r_pagination r) = int (length (filter (matches regex uid q) es)) \<and>
     totalPages (r_pagination r) =
       \<lceil>real_of_int (totalItems (r_pagination r)) / real_of_int (itemsPerPage (r_pagination r))\<rceil> \<and>
     (hasNext (r_pagination r) \<longleftrightarrow> currentPage (r_pagination r) < totalPages (r_pagination r)) \<and>
     (hasNext (r_pagination r) \<longleftrightarrow>
        currentPage (r_pagination r) * itemsPerPage (r_pagination r) < totalItems (r_pagination r)) \<and>
     (hasPrev (r_pagination r) \<longleftrightarrow> 1 < currentPage (r_pagination r)) \<and>
     length (r_expenses r) \<le> nat (itemsPerPage (r_pagination r)) \<and>
     (\<forall>e \<in> set (r_expenses r). e \<in> set es \<and> matches regex uid q e)"
proof -
  define page where "page = (case q_page q of None \<Rightarrow> 1 | Some p \<Rightarrow> p)"
  define limit where "limit = (case q_limit q of None \<Rightarrow> 10 | Some l \<Rightarrow> l)"
  define found where "found = filter (matches regex uid q) es"
  define r where "r = \<lparr>r_expenses = take (nat limit) (drop (nat ((page - 1) * limit)) (sort_expenses found)),
       r_pagination =
         \<lparr>currentPage = page, totalPages = \<lceil>real_of_int (int (length found)) / real_of_int limit\<rceil>,
          totalItems = int (length found), itemsPerPage = limit,
          hasNext = (page < \<lceil>real_of_int (int (length found)) / real_of_int limit\<rceil>),
          hasPrev = (1 < page)\<rparr>,
       r_summary =
         (if found = []
          then \<lparr>s_totalAmount = 0, s_count = 0, s_averageAmount = 0\<rparr>
          else \<lparr>s_totalAmount = sum_list (map e_amount found), s_count = length found,
                s_averageAmount = sum_list (map e_amount found) / real (length found)\<rparr>)\<rparr>"
  have res: "get_expenses regex uid q es = Inr r"
    using assms by (simp add: get_expenses_def Let_def r_def page_def limit_def found_def)
  have page: "1 \<le> page"
    using assms by (simp add: query_validation_def page_def split: option.splits)
  have limit: "1 \<le> limit" "limit \<le> 100"
    using assms by (simp_all add: query_validation_def limit_def split: option.splits)
  have fields: "currentPage (r_pagination r) = page" "itemsPerPage (r_pagination r) = limit"
    "totalItems (r_pagination r) = int (length found)"
    "totalPages (r_pagination r) = \<lceil>real_of_int (int (length found)) / real_of_int limit\<rceil>"
    "hasNext (r_pagination r) = (page < \<lceil>real_of_int (int (length found)) / real_of_int limit\<rceil>)"
    "hasPrev (r_pagination r) = (1 < page)"
    "r_expenses r = take (nat limit) (drop (nat ((page - 1) * limit)) (sort_expenses found))"
    by (simp_all add: r_def)
  have "set (r_expenses r) \<subseteq> set (sort_expenses found)"
    unfolding fields by (rule subset_trans [OF set_take_subset set_drop_subset])
  then have sub: "set (r_expenses r) \<subseteq> set found"
    by (simp only: set_sort_expenses)
  have members: "\<forall>e \<in> set (r_expenses r). e \<in> set es \<and> matches regex uid q e"
  proof
    fix e assume "e \<in> set (r_expenses r)"
    with sub have "e \<in> set found" by (rule subsetD)
    then show "e \<in> set es \<and> matches regex uid q e" by (simp add: found_def)
  qed
  have len: "length (r_expenses r) \<le> nat limit" unfolding fields by simp
  have next_iff: "page < \<lceil>real_of_int (int (length found)) / real_of_int limit\<rceil> \<longleftrightarrow>
      page * limit < int (length found)"
    using limit(1) by (rule page_less_ceiling)
  have "1 \<le> currentPage (r_pagination r) \<and>
     1 \<le> itemsPerPage (r_pagination r) \<and> itemsPerPage (r_pagination r) \<le> 100 \<and>
     totalItems (r_pagination r) = int (length (filter (matches regex uid q) es)) \<and>
     totalPages (r_pagination r) =
       \<lceil>real_of_int (totalItems (r_pagination r)) / real_of_int (itemsPerPage (r_pagination r))\<rceil> \<and>
     (hasNext (r_pagination r) \<longleftrightarrow> currentPage (r_pagination r) < totalPages (r_pagination r)) \<and>
     (hasNext (r_pagination r) \<longleftrightarrow>
        currentPage (r_pagination r) * itemsPerPage (r_pagination r) < totalItems (r_pagination r)) \<and>
     (hasPrev (r_pagination r) \<longleftrightarrow> 1 < currentPage (r_pagination r)) \<and>
     length (r_expenses r) \<le> nat (itemsPerPage (r_pagination r))"
    using page limit len next_iff unfolding fields(1-6) found_def by blast
  with res members show ?thesis by blast
qed

lemma page_query_valid: "query_validation page_query"
  by (simp add: query_validation_def page_query_def)

lemma page_query_result:
  "get_expenses (=) 7 page_query three_expenses =
     Inr \<lparr>r_expenses = [demo_expense ''Groceries'' 30],
          r_pagination = \<lparr>currentPage = 1, totalPages = 2, totalItems = 2, itemsPerPage = 1,
                          hasNext = True, hasPrev = False\<rparr>,
          r_summary = \<lparr>s_totalAmount = 50, s_count = 2, s_averageAmount = 25\<rparr>\<rparr>"
  by (simp add: get_expenses_def page_query_def matches_def sort_expenses_def
      query_validation_def three_expenses_def demo_expense_def Let_def)

theorem expenses_pagination_witness:
  "query_validation page_query \<and>
   get_expenses (=) 7 page_query three_expenses =
     Inr \<lparr>r_expenses = [demo_expense ''Groceries'' 30],
          r_pagination = \<lparr>currentPage = 1, totalPages = 2, totalItems = 2, itemsPerPage = 1,
                          hasNext = True, hasPrev = False\<rparr>,
          r_summary = \<lparr>s_totalAmount = 50, s_count = 2, s_averageAmount = 25\<rparr>\<rparr> \<and>
   matches (=) 7 page_query (demo_expense ''Groceries'' 30) \<and>
   (\<exists>r. get_expenses (=) 7 page_query three_expenses = Inr r \<and>
      totalPages (r_pagination r) =
       \<lceil>real_of_int (totalItems (r_pagination r)) / real_of_int (itemsPerPage (r_pagination r))\<rceil> \<and>
     (hasNext (r_pagination r) \<longleftrightarrow> currentPage (r_pagination r) < totalPages (r_pagination r)) \<and>
     (hasPrev (r_pagination r) \<longleftrightarrow> 1 < currentPage (r_pagination r)) \<and>
     (\<forall>e \<in> set (r_expenses r). e \<in> set three_expenses \<and> matches (=) 7 page_query e))"
proof -
  have m: "matches (=) 7 page_query (demo_expense ''Groceries'' 30)"
    by (simp add: matches_def page_query_def demo_expense_def)
  from expenses_pagination [OF page_query_valid, of "(=)" 7 three_expenses]
  have "\<exists>r. get_expenses (=) 7 page_query three_expenses = Inr r \<and>
      totalPages (r_pagination r) =
       \<lceil>real_of_int (totalItems (r_pagination r)) / real_of_int (itemsPerPage (r_pagination r))\<rceil> \<and>
     (hasNext (r_pagination r) \<longleftrightarrow> currentPage (r_pagination r) < totalPages (r_pagination r)) \<and>
     (hasPrev (r_pagination r) \<longleftrightarrow> 1 < currentPage (r_pagination r)) \<and>
     (\<forall>e \<in> set (r_expenses r). e \<in> set three_expenses \<and> matches (=) 7 page_query e)"
    by blast
  with page_query_valid page_query_result m show ?thesis by blast
qed

end
